theory Spec2Isabelle
  imports Complex_Main "HOL-Library.AList"
begin

section \<open>The integration test runner of scripts/run\_integration\_tests.py\<close>

text \<open>
  The theory embeds \<^verbatim>\<open>IntegrationTestRunner\<close> of
  \<^verbatim>\<open>scripts/run_integration_tests.py\<close>. Everything outside the script (the
  file system, the spawned processes, the HTTP replies of the services, the operating
  system's signal) is an explicit environment of oracles, so that a theorem about every
  environment is a theorem about every run. Python's float arithmetic on the counters
  (\<^verbatim>\<open>passed / total * 100\<close>) is modelled by exact rational arithmetic.
\<close>

subsection \<open>The registry\<close>

record TechnologyConfig =
  name :: string
  executable :: string
  port :: nat
  health_endpoint :: string
  startup_time :: nat
  dependencies :: "string list"
  critical :: bool

text \<open>\<^verbatim>\<open>self.technologies\<close>: a dict literal, kept in its declaration order.\<close>

definition technologies :: "(string \<times> TechnologyConfig) list" where
  "technologies =
    [(''air-to-air-mesh'',
        \<lparr>name = ''Air-to-Air Mesh Network'', executable = ''airmesh_demo'', port = 8081,
         health_endpoint = ''/health'', startup_time = 10, dependencies = [],
         critical = False\<rparr>),
     (''neuro-fcc'',
        \<lparr>name = ''Neuro-FCC'', executable = ''neuro_fcc_demo'', port = 8082,
         health_endpoint = ''/health'', startup_time = 5,
         dependencies = [''air-to-air-mesh''], critical = True\<rparr>),
     (''self-adaptive-rotor-blades'',
        \<lparr>name = ''Self-Adaptive Rotor Blades'', executable = ''adaptive_rotor_demo'',
         port = 8083, health_endpoint = ''/health'', startup_time = 8,
         dependencies = [''neuro-fcc''], critical = False\<rparr>),
     (''cold-jet'',
        \<lparr>name = ''Cold-Jet'', executable = ''cold_jet_demo'', port = 8084,
         health_endpoint = ''/health'', startup_time = 15,
         dependencies = [''self-adaptive-rotor-blades''], critical = False\<rparr>),
     (''local-gravity-field-navigation'',
        \<lparr>name = ''Local Gravity Field Navigation'', executable = ''lgfn_demo'',
         port = 8085, health_endpoint = ''/health'', startup_time = 12,
         dependencies = [''cold-jet''], critical = False\<rparr>),
     (''predictive-airflow-engine'',
        \<lparr>name = ''Predictive Airflow Engine'', executable = ''predictive_airflow_demo'',
         port = 8086, health_endpoint = ''/health'', startup_time = 20,
         dependencies = [''local-gravity-field-navigation''], critical = False\<rparr>),
     (''self-healing-avionics-bios'',
        \<lparr>name = ''Self-Healing Avionics BIOS'', executable = ''self_healing_bios_demo'',
         port = 8087, health_endpoint = ''/health'', startup_time = 3, dependencies = [],
         critical = True\<rparr>),
     (''vortex-shield'',
        \<lparr>name = ''Vortex Shield'', executable = ''vortex_shield_demo'', port = 8088,
         health_endpoint = ''/health'', startup_time = 7,
         dependencies = [''neuro-fcc''], critical = True\<rparr>),
     (''air-swarm-os'',
        \<lparr>name = ''Air Swarm OS'', executable = ''air_swarm_os_demo'', port = 8089,
         health_endpoint = ''/health'', startup_time = 25,
         dependencies = [''predictive-airflow-engine'', ''self-healing-avionics-bios''],
         critical = False\<rparr>),
     (''star-nav-core'',
        \<lparr>name = ''StarNav Core'', executable = ''starnav_demo'', port = 8090,
         health_endpoint = ''/health'', startup_time = 30,
         dependencies = [''air-swarm-os''], critical = False\<rparr>)]"

text \<open>The local \<^verbatim>\<open>start_order\<close> of \<^verbatim>\<open>run_integration_tests\<close>.\<close>

definition start_order :: "string list" where
  "start_order =
    [''air-to-air-mesh'', ''self-healing-avionics-bios'', ''neuro-fcc'',
     ''self-adaptive-rotor-blades'', ''vortex-shield'', ''cold-jet'',
     ''local-gravity-field-navigation'', ''predictive-airflow-engine'',
     ''air-swarm-os'', ''star-nav-core'']"

text \<open>The local \<^verbatim>\<open>stop_order\<close> of \<^verbatim>\<open>stop_all_services\<close>
  (its comment: "Stop in reverse dependency order").\<close>

definition stop_order :: "string list" where
  "stop_order =
    [''star-nav-core'', ''air-swarm-os'', ''predictive-airflow-engine'',
     ''local-gravity-field-navigation'', ''cold-jet'', ''self-adaptive-rotor-blades'',
     ''vortex-shield'', ''neuro-fcc'', ''air-to-air-mesh'',
     ''self-healing-avionics-bios'']"

definition communication_pairs :: "(string \<times> string) list" where
  "communication_pairs =
    [(''neuro-fcc'', ''self-adaptive-rotor-blades''),
     (''neuro-fcc'', ''vortex-shield''),
     (''air-swarm-os'', ''star-nav-core''),
     (''predictive-airflow-engine'', ''neuro-fcc'')]"

text \<open>The position of a key in a list (the length of the list when it is absent).\<close>

fun position :: "string \<Rightarrow> string list \<Rightarrow> nat" where
  "position k [] = 0"
| "position k (x # xs) = (if x = k then 0 else Suc (position k xs))"

text \<open>Every dependency of every declared service stands before it in the order.\<close>

definition dependencies_first :: "(string \<times> TechnologyConfig) list \<Rightarrow> string list \<Rightarrow> bool" where
  "dependencies_first reg order =
     list_all (\<lambda>(k, cfg). list_all (\<lambda>d. position d order < position k order) (dependencies cfg)) reg"

text \<open>Every service stands before all of its dependencies (the teardown direction).\<close>

definition dependents_first :: "(string \<times> TechnologyConfig) list \<Rightarrow> string list \<Rightarrow> bool" where
  "dependents_first reg order =
     list_all (\<lambda>(k, cfg). list_all (\<lambda>d. position k order < position d order) (dependencies cfg)) reg"

subsection \<open>The environment and the runner's state\<close>

datatype http_outcome =
    Response nat string
  | RequestException string

datatype start_outcome = ExeMissing | SpawnRaises | ExitsEarly | StaysAlive

datatype stop_outcome = Graceful | Killed | StopRaises

text \<open>
  The reply of the performance endpoint: the status and the body (the keys of the JSON
  object it parses to, or the text of the exception that reading it as one raises); or
  the text of the exception the request raised.
\<close>

datatype perf_outcome =
    PerfResponse nat "string list + string"
  | PerfException string

record env =
  start_reply :: "string \<Rightarrow> start_outcome"
  stop_reply :: "string \<Rightarrow> nat \<Rightarrow> stop_outcome"
  health_reply :: "string \<Rightarrow> http_outcome"
  perf_reply :: "string \<Rightarrow> perf_outcome"
  stress_reply :: "string \<Rightarrow> nat \<Rightarrow> http_outcome"
  comm_reply :: "string \<Rightarrow> string \<Rightarrow> http_outcome"
  signal_at :: "nat option"

datatype event =
    StartAttempt string
  | Spawn string
  | HealthProbe string
  | PerfProbe string
  | StressProbe string
  | CommProbe string string
  | Stop string
  | Signal

text \<open>
  \<^verbatim>\<open>processes\<close> are the keys of \<^verbatim>\<open>self.processes\<close>, \<^verbatim>\<open>running\<close> is
  \<^verbatim>\<open>self.running\<close>. The other fields are bookkeeping of the model: the actions
  issued so far (oldest first), the number of interruptible blocking calls made so far,
  and the number of stop attempts made so far.
\<close>

record runner =
  processes :: "string set"
  running :: bool
  trace :: "event list"
  clock :: nat
  stops :: nat

definition init_runner :: runner where
  "init_runner = \<lparr>processes = {}, running = True, trace = [], clock = 0, stops = 0\<rparr>"

definition emit :: "event \<Rightarrow> runner \<Rightarrow> runner" where
  "emit e s = s\<lparr>trace := trace s @ [e]\<rparr>"

subsection \<open>Stopping\<close>

text \<open>
  \<^verbatim>\<open>stop_service\<close>: a key without a process entry returns True at once. Otherwise
  the process is terminated (and killed after the 10 seconds of grace); the entry is
  deleted on success and kept when an exception was raised.
\<close>

definition stop_service :: "env \<Rightarrow> string \<Rightarrow> runner \<Rightarrow> bool \<times> runner" where
  "stop_service e k s =
     (if k \<notin> processes s then (True, s)
      else
        let s1 = (emit (Stop k) s)\<lparr>stops := stops s + 1\<rparr> in
        (case stop_reply e k (stops s) of
           StopRaises \<Rightarrow> (False, s1)
         | _ \<Rightarrow> (True, s1\<lparr>processes := processes s1 - {k}\<rparr>)))"

text \<open>The body of the loop of \<^verbatim>\<open>stop_all_services\<close>; the result of
  \<^verbatim>\<open>stop_service\<close> is dropped there.\<close>

definition stop_step :: "env \<Rightarrow> string \<Rightarrow> runner \<Rightarrow> runner" where
  "stop_step e k s = (if k \<in> processes s then snd (stop_service e k s) else s)"

definition stop_all_services :: "env \<Rightarrow> runner \<Rightarrow> runner" where
  "stop_all_services e s = fold (stop_step e) stop_order s"

text \<open>\<^verbatim>\<open>_signal_handler\<close>.\<close>

definition signal_handler :: "env \<Rightarrow> runner \<Rightarrow> runner" where
  "signal_handler e s = stop_all_services e ((emit Signal s)\<lparr>running := False\<rparr>)"

text \<open>
  A blocking call of the main thread (a sleep or an HTTP request): the signal of the
  environment is delivered during the call whose number it names, and the handler runs
  before the call returns. Delivery during the waits of \<^verbatim>\<open>stop_service\<close> is not
  modelled.
\<close>

definition blocking :: "env \<Rightarrow> runner \<Rightarrow> runner" where
  "blocking e s =
     (let s1 = s\<lparr>clock := clock s + 1\<rparr> in
      if signal_at e = Some (clock s) then signal_handler e s1 else s1)"

subsection \<open>Starting\<close>

text \<open>
  \<^verbatim>\<open>start_service\<close>: False when the executable is missing or the spawn raises (no
  process entry is made); otherwise the entry is made, the startup time is slept, and
  the result is whether the process is still alive. A process that the signal handler
  stopped during the sleep is not alive.
\<close>

definition start_service :: "env \<Rightarrow> string \<Rightarrow> runner \<Rightarrow> bool \<times> runner" where
  "start_service e k s =
     (let s0 = emit (StartAttempt k) s in
      case start_reply e k of
        ExeMissing \<Rightarrow> (False, s0)
      | SpawnRaises \<Rightarrow> (False, s0)
      | outcome \<Rightarrow>
          let s1 = (emit (Spawn k) s0)\<lparr>processes := insert k (processes s0)\<rparr>;
              s2 = blocking e s1
          in (outcome = StaysAlive \<and> k \<in> processes s2, s2))"

datatype start_phase = AllAttempted | CriticalAbort string | KeyErrorRaised string

text \<open>
  The start loop of \<^verbatim>\<open>run_integration_tests\<close>, over the registry
  \<^verbatim>\<open>self.technologies\<close> that the runner holds. The lookup
  \<^verbatim>\<open>self.technologies[tech_key]\<close> raises KeyError for an undeclared key. The
  dependency lists of the registry are not read.
\<close>

fun start_services ::
  "(string \<times> TechnologyConfig) list \<Rightarrow> env \<Rightarrow> string list \<Rightarrow> runner \<times> string list
     \<Rightarrow> start_phase \<times> runner \<times> string list" where
  "start_services reg e [] (s, started) = (AllAttempted, s, started)"
| "start_services reg e (k # ks) (s, started) =
     (case map_of reg k of
        None \<Rightarrow> (KeyErrorRaised k, s, started)
      | Some cfg \<Rightarrow>
          (case start_service e k s of
             (True, s') \<Rightarrow> start_services reg e ks (s', started @ [k])
           | (False, s') \<Rightarrow>
               if critical cfg then (CriticalAbort k, stop_all_services e s', started)
               else start_services reg e ks (s', started)))"

subsection \<open>Probes\<close>

text \<open>Python's \<^verbatim>\<open>str\<close> of a natural number.\<close>

fun str :: "nat \<Rightarrow> string" where
  "str n = (if n < 10 then [''0123456789'' ! n] else str (n div 10) @ [''0123456789'' ! (n mod 10)])"

declare str.simps [simp del]

text \<open>\<^verbatim>\<open>check_service_health\<close>: the pair it returns, from the reply to its request.\<close>

definition check_service_health :: "env \<Rightarrow> string \<Rightarrow> bool \<times> string" where
  "check_service_health e k =
     (case health_reply e k of
        Response status_code text \<Rightarrow>
          if status_code = 200 then (True, text) else (False, ''HTTP '' @ str status_code)
      | RequestException msg \<Rightarrow> (False, msg))"

text \<open>\<^verbatim>\<open>test_service_communication\<close>.\<close>

definition test_service_communication :: "env \<Rightarrow> string \<Rightarrow> string \<Rightarrow> bool" where
  "test_service_communication e tech1 tech2 =
     (case comm_reply e tech1 tech2 of
        Response status_code text \<Rightarrow> status_code = 200
      | RequestException msg \<Rightarrow> False)"

text \<open>
  \<^verbatim>\<open>run_performance_test\<close> returns a dict: the keys of the reply's JSON object and
  \<^verbatim>\<open>measured_response_time\<close>, or the one key \<^verbatim>\<open>error\<close>. A body that is no JSON
  object raises inside the \<^verbatim>\<open>try\<close>, with the text the reply carries.
\<close>

datatype perf_result = PerfData "string list" | PerfError string

definition run_performance_test :: "env \<Rightarrow> string \<Rightarrow> perf_result" where
  "run_performance_test e k =
     (case perf_reply e k of
        PerfResponse status_code body \<Rightarrow>
          if status_code = 200 then
            (case body of
               Inl keys \<Rightarrow> PerfData (List.insert ''measured_response_time'' keys)
             | Inr msg \<Rightarrow> PerfError msg)
          else PerfError (''HTTP '' @ str status_code)
      | PerfException msg \<Rightarrow> PerfError msg)"

text \<open>\<^verbatim>\<open>"error" not in perf_result\<close>.\<close>

definition error_not_in :: "perf_result \<Rightarrow> bool" where
  "error_not_in r = (case r of PerfData keys \<Rightarrow> ''error'' \<notin> set keys | PerfError msg \<Rightarrow> False)"

text \<open>The inner \<^verbatim>\<open>send_request\<close> of \<^verbatim>\<open>run_stress_test\<close>: its bare
  \<^verbatim>\<open>except\<close> turns every exception into False.\<close>

definition send_request :: "http_outcome \<Rightarrow> bool" where
  "send_request reply =
     (case reply of
        Response status_code text \<Rightarrow> status_code = 200
      | RequestException msg \<Rightarrow> False)"

record stress_report =
  total_requests :: nat
  successful_requests :: nat
  stress_success_rate :: rat
  passed :: bool

datatype stress_result = StressReport stress_report | StressError string

text \<open>The 50 results of the pool of 10 workers; the sum and the length do not depend on
  the order of completion.\<close>

definition stress_results :: "env \<Rightarrow> string \<Rightarrow> bool list" where
  "stress_results e k = map (\<lambda>i. send_request (stress_reply e k i)) [0..<50]"

text \<open>\<^verbatim>\<open>sum(results)\<close> of a list of booleans.\<close>

definition sum_bools :: "bool list \<Rightarrow> nat" where
  "sum_bools results = length (filter (\<lambda>b. b) results)"

text \<open>The summary dict; a division by zero is caught by the outer \<^verbatim>\<open>except\<close>.\<close>

definition stress_summary :: "bool list \<Rightarrow> stress_result" where
  "stress_summary results =
     (if length results = 0 then StressError ''division by zero''
      else
        let success_rate = of_nat (sum_bools results) / of_nat (length results) * 100 in
        StressReport
          \<lparr>total_requests = length results,
           successful_requests = sum_bools results,
           stress_success_rate = success_rate,
           passed = (success_rate \<ge> 95)\<rparr>)"

definition run_stress_test :: "env \<Rightarrow> string \<Rightarrow> stress_result" where
  "run_stress_test e k = stress_summary (stress_results e k)"

text \<open>\<^verbatim>\<open>stress_result.get("passed", False)\<close>.\<close>

definition get_passed :: "stress_result \<Rightarrow> bool" where
  "get_passed r = (case r of StressReport rep \<Rightarrow> passed rep | StressError msg \<Rightarrow> False)"

subsection \<open>The results dict\<close>

text \<open>
  A key that the dict may lack is an optional field. The keys \<^verbatim>\<open>timestamp\<close> and
  \<^verbatim>\<open>name\<close> are left out.
\<close>

record tech_results =
  health_check :: "bool \<times> string"
  performance :: "perf_result option"
  stress :: "stress_result option"

record results =
  total_tests :: nat
  passed_tests :: nat
  failed_tests :: nat
  technologies_tested :: "(string \<times> tech_results) list"
  communication_tests :: "(string \<times> bool) list option"
  success_rate :: "rat option"
  overall_passed :: "bool option"

definition initial_results :: results where
  "initial_results =
     \<lparr>total_tests = 0, passed_tests = 0, failed_tests = 0, technologies_tested = [],
      communication_tests = None, success_rate = None, overall_passed = None\<rparr>"

text \<open>One test counted: the total and exactly one of the two other counters.\<close>

definition count_test :: "bool \<Rightarrow> results \<Rightarrow> results" where
  "count_test ok r =
     (let r1 = r\<lparr>total_tests := total_tests r + 1\<rparr> in
      if ok then r1\<lparr>passed_tests := passed_tests r1 + 1\<rparr>
      else r1\<lparr>failed_tests := failed_tests r1 + 1\<rparr>)"

subsection \<open>The test loops\<close>

text \<open>The body of the loop over \<^verbatim>\<open>started_services\<close>, after its check of
  \<^verbatim>\<open>self.running\<close>.\<close>

definition test_technology :: "env \<Rightarrow> string \<Rightarrow> runner \<times> results \<Rightarrow> runner \<times> results" where
  "test_technology e k sr =
     (let (s, r) = sr;
          s1 = blocking e (emit (HealthProbe k) s);
          (healthy, health_message) = check_service_health e k;
          r1 = count_test healthy r;
          (s2, r2, perf) =
            (if healthy then
               let s' = blocking e (emit (PerfProbe k) s1);
                   perf_result = run_performance_test e k
               in (s', count_test (error_not_in perf_result) r1, Some perf_result)
             else (s1, r1, None));
          (s3, r3, strs) =
            (if healthy then
               let s' = blocking e (emit (StressProbe k) s2);
                   stress_result = run_stress_test e k
               in (s', count_test (get_passed stress_result) r2, Some stress_result)
             else (s2, r2, None));
          r4 = r3\<lparr>technologies_tested :=
                 AList.update k
                   \<lparr>health_check = (healthy, health_message), performance = perf, stress = strs\<rparr>
                   (technologies_tested r3)\<rparr>
      in (blocking e s3, r4))"

fun test_technologies :: "env \<Rightarrow> string list \<Rightarrow> runner \<times> results \<Rightarrow> runner \<times> results" where
  "test_technologies e [] sr = sr"
| "test_technologies e (k # ks) sr =
     (if \<not> running (fst sr) then sr else test_technologies e ks (test_technology e k sr))"

text \<open>The body of the loop over \<^verbatim>\<open>communication_pairs\<close>, after its check of
  \<^verbatim>\<open>self.running\<close>.\<close>

definition test_pair ::
  "env \<Rightarrow> string list \<Rightarrow> string \<times> string \<Rightarrow> runner \<times> results \<Rightarrow> runner \<times> results" where
  "test_pair e started p sr =
     (let (tech1, tech2) = p; (s, r) = sr in
      if tech1 \<in> set started \<and> tech2 \<in> set started then
        let s1 = blocking e (emit (CommProbe tech1 tech2) s);
            comm_result = test_service_communication e tech1 tech2;
            tests = (case communication_tests r of None \<Rightarrow> [] | Some ts \<Rightarrow> ts);
            r1 = r\<lparr>total_tests := total_tests r + 1,
                   communication_tests :=
                     Some (AList.update (tech1 @ ''_to_'' @ tech2) comm_result tests)\<rparr>
        in (s1, if comm_result then r1\<lparr>passed_tests := passed_tests r1 + 1\<rparr>
                else r1\<lparr>failed_tests := failed_tests r1 + 1\<rparr>)
      else (s, r))"

fun test_pairs ::
  "env \<Rightarrow> string list \<Rightarrow> (string \<times> string) list \<Rightarrow> runner \<times> results \<Rightarrow> runner \<times> results" where
  "test_pairs e started [] sr = sr"
| "test_pairs e started (p # ps) sr =
     (if \<not> running (fst sr) then sr else test_pairs e started ps (test_pair e started p sr))"

subsection \<open>The run\<close>

text \<open>The success rate and the overall result, computed at the end of a full run.\<close>

definition finalize :: "results \<Rightarrow> results" where
  "finalize r =
     (let rate = (if total_tests r > 0
                  then of_nat (passed_tests r) / of_nat (total_tests r) * 100 else 0)
      in r\<lparr>success_rate := Some rate, overall_passed := Some (rate \<ge> 90)\<rparr>)"

datatype error = KeyError string

text \<open>
  \<^verbatim>\<open>run_integration_tests\<close> of a runner with the registry \<open>reg\<close>, with the
  runner's final state. After a critical service failed to start, the results dict is
  returned as it was initialised.
\<close>

definition run_integration_tests ::
  "(string \<times> TechnologyConfig) list \<Rightarrow> env \<Rightarrow> runner \<Rightarrow> (error + results) \<times> runner" where
  "run_integration_tests reg e s =
     (case start_services reg e start_order (s, []) of
        (KeyErrorRaised k, s1, started) \<Rightarrow> (Inl (KeyError k), s1)
      | (CriticalAbort k, s1, started) \<Rightarrow> (Inr initial_results, s1)
      | (AllAttempted, s1, started) \<Rightarrow>
          let s2 = blocking e s1;
              (s3, r3) = test_technologies e started (s2, initial_results);
              (s4, r4) = test_pairs e started communication_pairs (s3, r3);
              s5 = stop_all_services e s4
          in (Inr (finalize r4), s5))"

text \<open>
  What \<^verbatim>\<open>generate_report\<close> and the summary of \<^verbatim>\<open>main\<close> read of the results:
  the subscripts \<^verbatim>\<open>results['success_rate']\<close> and \<^verbatim>\<open>results['overall_passed']\<close>
  raise KeyError when the key is missing. The text of the report is not modelled.
\<close>

definition generate_report :: "results \<Rightarrow> error + rat \<times> bool" where
  "generate_report r =
     (case success_rate r of
        None \<Rightarrow> Inl (KeyError ''success_rate'')
      | Some rate \<Rightarrow>
          (case overall_passed r of
             None \<Rightarrow> Inl (KeyError ''overall_passed'')
           | Some ok \<Rightarrow> Inr (rate, ok)))"

text \<open>
  \<^verbatim>\<open>main\<close>, on the runner that \<^verbatim>\<open>__init__\<close> builds: the exit status of
  the process, the exception that its \<^verbatim>\<open>except Exception\<close> caught (if any), the
  results returned and the runner's final state.
\<close>

record outcome =
  exit_status :: nat
  unexpected_error :: "error option"
  returned :: "results option"
  final :: runner

definition main :: "env \<Rightarrow> outcome" where
  "main e =
     (case run_integration_tests technologies e init_runner of
        (Inl err, s) \<Rightarrow>
          \<lparr>exit_status = 1, unexpected_error = Some err, returned = None,
           final = stop_all_services e s\<rparr>
      | (Inr r, s) \<Rightarrow>
          (case generate_report r of
             Inl err \<Rightarrow>
               \<lparr>exit_status = 1, unexpected_error = Some err, returned = Some r,
                final = stop_all_services e s\<rparr>
           | Inr (rate, ok) \<Rightarrow>
               \<lparr>exit_status = (if ok then 0 else 1), unexpected_error = None,
                returned = Some r, final = s\<rparr>))"

subsection \<open>Environments used as examples\<close>

text \<open>Every service starts, answers every request with status 200 and stops gracefully;
  no signal arrives.\<close>

definition env_all_ok :: env where
  "env_all_ok =
     \<lparr>start_reply = (\<lambda>k. StaysAlive), stop_reply = (\<lambda>k n. Graceful),
      health_reply = (\<lambda>k. Response 200 ''OK''),
      perf_reply = (\<lambda>k. PerfResponse 200 (Inl [])),
      stress_reply = (\<lambda>k i. Response 200 ''OK''),
      comm_reply = (\<lambda>a b. Response 200 ''OK''),
      signal_at = None\<rparr>"

definition core_services :: "string list" where
  "core_services =
     [''air-to-air-mesh'', ''self-healing-avionics-bios'', ''neuro-fcc'', ''vortex-shield'']"

text \<open>Only four executables were built, and the health endpoint of the critical service
  \<^verbatim>\<open>neuro-fcc\<close> answers with status 500.\<close>

definition env_core :: env where
  "env_core =
     env_all_ok
       \<lparr>start_reply := (\<lambda>k. if k \<in> set core_services then StaysAlive else ExeMissing),
        health_reply := (\<lambda>k. if k = ''neuro-fcc'' then Response 500 ''down''
                               else Response 200 ''OK'')\<rparr>"

text \<open>No executable was built.\<close>

definition env_nothing_built :: env where
  "env_nothing_built = env_all_ok\<lparr>start_reply := (\<lambda>k. ExeMissing)\<rparr>"


text \<open>The health endpoints answer with status 204 (No Content).\<close>

definition env_204 :: env where
  "env_204 = env_all_ok\<lparr>health_reply := (\<lambda>k. Response 204 [])\<rparr>"




text \<open>A runner whose registry declares a service that depends on itself (a cycle), the
  registry being otherwise the one of \<^verbatim>\<open>__init__\<close>.\<close>

definition self_dependent_registry :: "(string \<times> TechnologyConfig) list" where
  "self_dependent_registry =
     map (\<lambda>(k, cfg). if k = ''air-to-air-mesh''
                      then (k, cfg\<lparr>dependencies := [''air-to-air-mesh'']\<rparr>) else (k, cfg))
       technologies"

text \<open>Four executables were built, every request succeeds, and the signal arrives during
  the first blocking call of the run (the startup sleep of the first service).\<close>

definition env_signal_at_start :: env where
  "env_signal_at_start =
     env_all_ok
       \<lparr>start_reply := (\<lambda>k. if k \<in> set core_services then StaysAlive else ExeMissing),
        signal_at := Some 0\<rparr>"

text \<open>The same, but the signal arrives during the sixth blocking call of the run: the
  four startup sleeps and the wait of 30 seconds come first, the sixth is the health
  request of the first service tested.\<close>

definition env_signal_at_health :: env where
  "env_signal_at_health =
     env_all_ok
       \<lparr>start_reply := (\<lambda>k. if k \<in> set core_services then StaysAlive else ExeMissing),
        signal_at := Some 5\<rparr>"

subsection \<open>Observations of a trace and of the results\<close>

text \<open>The keys of the start attempts, of the processes spawned, of the stops issued and
  the pairs of the communication probes, each in the order of the trace.\<close>

definition start_attempts :: "event list \<Rightarrow> string list" where
  "start_attempts evs = concat (map (\<lambda>ev. case ev of StartAttempt k \<Rightarrow> [k] | _ \<Rightarrow> []) evs)"

definition spawned :: "event list \<Rightarrow> string list" where
  "spawned evs = concat (map (\<lambda>ev. case ev of Spawn k \<Rightarrow> [k] | _ \<Rightarrow> []) evs)"

definition stopped :: "event list \<Rightarrow> string list" where
  "stopped evs = concat (map (\<lambda>ev. case ev of Stop k \<Rightarrow> [k] | _ \<Rightarrow> []) evs)"

definition comm_probes :: "event list \<Rightarrow> (string \<times> string) list" where
  "comm_probes evs = concat (map (\<lambda>ev. case ev of CommProbe a b \<Rightarrow> [(a, b)] | _ \<Rightarrow> []) evs)"

text \<open>The events that follow the first signal of a trace.\<close>

definition after_signal :: "event list \<Rightarrow> event list" where
  "after_signal evs = drop 1 (dropWhile (\<lambda>ev. ev \<noteq> Signal) evs)"

text \<open>The events with which the tests of a service, or of a pair, begin.\<close>

fun opens_test :: "event \<Rightarrow> bool" where
  "opens_test (HealthProbe k) = True"
| "opens_test (CommProbe a b) = True"
| "opens_test ev = False"

text \<open>Every test counted was counted as passed or as failed.\<close>

definition balanced :: "results \<Rightarrow> bool" where
  "balanced r \<longleftrightarrow> total_tests r = passed_tests r + failed_tests r"

section \<open>Stopping\<close>


lemma stop_step_trace:
  "trace (stop_step e k s) = trace s @ (if k \<in> processes s then [Stop k] else [])"
  by (simp add: stop_step_def stop_service_def emit_def Let_def split: stop_outcome.splits)

lemma stop_step_processes: "processes (stop_step e k s) - {k} = processes s - {k}"
  by (auto simp: stop_step_def stop_service_def emit_def Let_def split: stop_outcome.splits)

lemma stop_step_other:
  "k' \<noteq> k \<Longrightarrow> k' \<in> processes (stop_step e k s) \<longleftrightarrow> k' \<in> processes s"
  using stop_step_processes [of e k s] by blast

lemma stop_step_subset: "processes (stop_step e k s) \<subseteq> processes s"
  by (auto simp: stop_step_def stop_service_def emit_def Let_def split: stop_outcome.splits)



lemma fold_stop_trace:
  "distinct ks \<Longrightarrow>
   trace (fold (stop_step e) ks s) = trace s @ map Stop (filter (\<lambda>k. k \<in> processes s) ks)"
proof (induction ks arbitrary: s)
  case Nil
  then show ?case by simp
next
  case (Cons k ks)
  have same: "filter (\<lambda>x. x \<in> processes (stop_step e k s)) ks = filter (\<lambda>x. x \<in> processes s) ks"
    using Cons.prems by (intro filter_cong refl stop_step_other) auto
  show ?case
    using Cons.prems by (simp add: Cons.IH same stop_step_trace)
qed



lemma fold_stop_subset: "processes (fold (stop_step e) ks s) \<subseteq> processes s"
proof (induction ks arbitrary: s)
  case Nil
  then show ?case by simp
next
  case (Cons k ks)
  from Cons.IH [of "stop_step e k s"] stop_step_subset [of e k s] show ?case by auto
qed

lemma distinct_stop_order: "distinct stop_order"
  by (simp add: stop_order_def)

lemma stop_all_trace:
  "trace (stop_all_services e s) = trace s @ map Stop (filter (\<lambda>k. k \<in> processes s) stop_order)"
  by (simp add: stop_all_services_def fold_stop_trace distinct_stop_order)

lemma stop_all_subset: "processes (stop_all_services e s) \<subseteq> processes s"
  by (simp add: stop_all_services_def fold_stop_subset)



text \<open>
  Claim C3, as amended. \<^verbatim>\<open>stop_all_services\<close> issues its stops for exactly the
  services that have a process entry, in the order of the fixed list
  \<^verbatim>\<open>stop_order\<close>. In that list every service stands before all of its
  dependencies (the "reverse dependency order" of the code's comment); it is not the
  reverse of the order in which the services were started.
\<close>

theorem stop_all_follows_stop_order:
  "trace (stop_all_services e s) = trace s @ map Stop (filter (\<lambda>k. k \<in> processes s) stop_order)
   \<and> dependents_first technologies stop_order"
  by (simp add: stop_all_trace)
     (simp add: dependents_first_def technologies_def stop_order_def)


section \<open>The example environments, field by field\<close>

lemma env_all_ok_simps:
  "start_reply env_all_ok k = StaysAlive"
  "stop_reply env_all_ok k n = Graceful"
  "health_reply env_all_ok k = Response 200 ''OK''"
  "perf_reply env_all_ok k = PerfResponse 200 (Inl [])"
  "stress_reply env_all_ok k i = Response 200 ''OK''"
  "comm_reply env_all_ok a b = Response 200 ''OK''"
  "signal_at env_all_ok = None"
  by (simp_all add: env_all_ok_def)

lemma env_core_simps:
  "start_reply env_core k = (if k \<in> set core_services then StaysAlive else ExeMissing)"
  "stop_reply env_core k n = Graceful"
  "health_reply env_core k =
     (if k = ''neuro-fcc'' then Response 500 ''down'' else Response 200 ''OK'')"
  "perf_reply env_core k = PerfResponse 200 (Inl [])"
  "stress_reply env_core k i = Response 200 ''OK''"
  "comm_reply env_core a b = Response 200 ''OK''"
  "signal_at env_core = None"
  by (simp_all add: env_core_def env_all_ok_def)

lemma env_nothing_built_simps:
  "start_reply env_nothing_built k = ExeMissing"
  "stop_reply env_nothing_built k n = Graceful"
  "signal_at env_nothing_built = None"
  by (simp_all add: env_nothing_built_def env_all_ok_def)


lemma env_204_simps:
  "health_reply env_204 k = Response 204 []"
  by (simp_all add: env_204_def env_all_ok_def)

section \<open>Stopping twice\<close>

lemmas runner_eval =
  start_service_def blocking_def emit_def stop_all_services_def stop_step_def
  stop_service_def signal_handler_def init_runner_def Let_def





section \<open>The health check\<close>

lemma str_204: "str 204 = ''204''"
  by (simp add: str.simps)

lemma str_503: "str 503 = ''503''"
  by (simp add: str.simps)

text \<open>
  Claim C5, as amended. The health check reports a service healthy exactly when the
  reply has status 200, and then returns the body of the reply. Every other status, the
  other statuses of the 2xx class included, yields unhealthy with the message
  \<^verbatim>\<open>HTTP <status>\<close>, and a transport failure yields unhealthy with the text of the
  exception.
\<close>

theorem health_check_status_200:
  "(fst (check_service_health e k) \<longleftrightarrow> (\<exists>text. health_reply e k = Response 200 text))
   \<and> (\<forall>text. health_reply e k = Response 200 text \<longrightarrow>
         check_service_health e k = (True, text))
   \<and> (\<forall>c text. health_reply e k = Response c text \<and> c \<noteq> 200 \<longrightarrow>
         check_service_health e k = (False, ''HTTP '' @ str c))
   \<and> (\<forall>msg. health_reply e k = RequestException msg \<longrightarrow>
         check_service_health e k = (False, msg))"
  by (auto simp: check_service_health_def split: http_outcome.splits)

theorem health_check_status_200_witness:
  "check_service_health env_all_ok ''neuro-fcc'' = (True, ''OK'')
   \<and> check_service_health env_core ''neuro-fcc'' = (False, ''HTTP 500'')
   \<and> check_service_health
       (env_all_ok\<lparr>health_reply := (\<lambda>k. RequestException ''connection refused'')\<rparr>)
       ''neuro-fcc'' = (False, ''connection refused'')"
proof -
  have a: "health_reply env_all_ok ''neuro-fcc'' = Response 200 ''OK''"
    by (simp add: env_all_ok_simps)
  have b: "health_reply env_core ''neuro-fcc'' = Response 500 ''down''"
    by (simp add: env_core_simps)
  have c: "health_reply
             (env_all_ok\<lparr>health_reply := (\<lambda>k. RequestException ''connection refused'')\<rparr>)
             ''neuro-fcc'' = RequestException ''connection refused''"
    by simp
  have d: "str 500 = ''500''"
    by (simp add: str.simps)
  from health_check_status_200 [of env_all_ok "''neuro-fcc''"] a
  have "check_service_health env_all_ok ''neuro-fcc'' = (True, ''OK'')" by simp
  moreover
  from health_check_status_200 [of env_core "''neuro-fcc''"] b d
  have "check_service_health env_core ''neuro-fcc'' = (False, ''HTTP 500'')" by simp
  moreover
  from health_check_status_200
         [of "env_all_ok\<lparr>health_reply := (\<lambda>k. RequestException ''connection refused'')\<rparr>"
             "''neuro-fcc''"] c
  have "check_service_health
          (env_all_ok\<lparr>health_reply := (\<lambda>k. RequestException ''connection refused'')\<rparr>)
          ''neuro-fcc'' = (False, ''connection refused'')" by simp
  ultimately show ?thesis by simp
qed

text \<open>
  Claim C5 as stated fails at a reply of the 2xx class other than 200: status 204 is
  reported unhealthy.
\<close>

theorem health_check_204_counterexample:
  "health_reply env_204 ''neuro-fcc'' = Response 204 []
   \<and> check_service_health env_204 ''neuro-fcc'' = (False, ''HTTP 204'')"
  by (simp add: check_service_health_def env_204_simps str_204)

section \<open>The stress probe\<close>

lemma length_stress_results: "length (stress_results e k) = 50"
  by (simp add: stress_results_def)

lemma send_request_200: "send_request reply \<longleftrightarrow> (\<exists>text. reply = Response 200 text)"
  by (auto simp: send_request_def split: http_outcome.splits)

lemma sum_bools_stress_results:
  "sum_bools (stress_results e k)
     = length (filter (\<lambda>i. \<exists>text. stress_reply e k i = Response 200 text) [0..<50])"
  by (simp add: sum_bools_def stress_results_def length_filter_map comp_def send_request_200
        del: upt.simps)






section \<open>Traces\<close>

lemma concat_map_Nil: "concat (map (\<lambda>x. []) xs) = []"
  by (induction xs) simp_all

lemma start_attempts_simps [simp]:
  "start_attempts [] = []"
  "start_attempts (StartAttempt k # evs) = k # start_attempts evs"
  "start_attempts (Spawn k # evs) = start_attempts evs"
  "start_attempts (HealthProbe k # evs) = start_attempts evs"
  "start_attempts (PerfProbe k # evs) = start_attempts evs"
  "start_attempts (StressProbe k # evs) = start_attempts evs"
  "start_attempts (CommProbe a b # evs) = start_attempts evs"
  "start_attempts (Stop k # evs) = start_attempts evs"
  "start_attempts (Signal # evs) = start_attempts evs"
  "start_attempts (xs @ ys) = start_attempts xs @ start_attempts ys"
  "start_attempts (map Stop ks) = []"
  by (simp_all add: start_attempts_def comp_def concat_map_Nil)

lemma spawned_simps [simp]:
  "spawned [] = []"
  "spawned (StartAttempt k # evs) = spawned evs"
  "spawned (Spawn k # evs) = k # spawned evs"
  "spawned (HealthProbe k # evs) = spawned evs"
  "spawned (PerfProbe k # evs) = spawned evs"
  "spawned (StressProbe k # evs) = spawned evs"
  "spawned (CommProbe a b # evs) = spawned evs"
  "spawned (Stop k # evs) = spawned evs"
  "spawned (Signal # evs) = spawned evs"
  "spawned (xs @ ys) = spawned xs @ spawned ys"
  "spawned (map Stop ks) = []"
  by (simp_all add: spawned_def comp_def concat_map_Nil)

lemma stopped_simps [simp]:
  "stopped [] = []"
  "stopped (StartAttempt k # evs) = stopped evs"
  "stopped (Spawn k # evs) = stopped evs"
  "stopped (HealthProbe k # evs) = stopped evs"
  "stopped (PerfProbe k # evs) = stopped evs"
  "stopped (StressProbe k # evs) = stopped evs"
  "stopped (CommProbe a b # evs) = stopped evs"
  "stopped (Stop k # evs) = k # stopped evs"
  "stopped (Signal # evs) = stopped evs"
  "stopped (xs @ ys) = stopped xs @ stopped ys"
  by (simp_all add: stopped_def)

lemma comm_probes_simps [simp]:
  "comm_probes [] = []"
  "comm_probes (StartAttempt k # evs) = comm_probes evs"
  "comm_probes (Spawn k # evs) = comm_probes evs"
  "comm_probes (HealthProbe k # evs) = comm_probes evs"
  "comm_probes (PerfProbe k # evs) = comm_probes evs"
  "comm_probes (StressProbe k # evs) = comm_probes evs"
  "comm_probes (CommProbe a b # evs) = (a, b) # comm_probes evs"
  "comm_probes (Stop k # evs) = comm_probes evs"
  "comm_probes (Signal # evs) = comm_probes evs"
  "comm_probes (xs @ ys) = comm_probes xs @ comm_probes ys"
  "comm_probes (map Stop ks) = []"
  by (simp_all add: comm_probes_def comp_def concat_map_Nil)

text \<open>What a blocking call adds to the trace: nothing, or the signal and the stops of
  the handler.\<close>

lemma blocking_trace:
  "trace (blocking e s) =
     trace s @ (if signal_at e = Some (clock s)
                then Signal # map Stop (filter (\<lambda>k. k \<in> processes s) stop_order) else [])"
  by (simp add: blocking_def signal_handler_def stop_all_trace emit_def Let_def)

lemma blocking_quiet: "signal_at e = None \<Longrightarrow> blocking e s = s\<lparr>clock := clock s + 1\<rparr>"
  by (simp add: blocking_def Let_def)

lemma blocking_clock: "clock (blocking e s) = clock s + 1"
proof -
  have "clock (fold (stop_step e) ks s') = clock s'" for ks s'
    by (induction ks arbitrary: s')
       (simp_all add: stop_step_def stop_service_def emit_def Let_def
          split: stop_outcome.splits)
  then show ?thesis
    by (simp add: blocking_def signal_handler_def stop_all_services_def emit_def Let_def)
qed

lemma blocking_processes: "processes (blocking e s) \<subseteq> processes s"
  using stop_all_subset [of e "(emit Signal (s\<lparr>clock := clock s + 1\<rparr>))\<lparr>running := False\<rparr>"]
  by (simp add: blocking_def signal_handler_def emit_def Let_def)

section \<open>The start loop\<close>

lemma start_service_attempts:
  "start_attempts (trace (snd (start_service e k s))) = start_attempts (trace s) @ [k]"
  by (simp add: start_service_def Let_def emit_def blocking_trace split: start_outcome.splits)

text \<open>The start attempts of the loop are a prefix of its list: the whole list when the
  loop ends, the list up to the service at which it is left otherwise.\<close>

lemma start_services_attempts:
  "start_services reg e ks (s, started) = (phase, s', started') \<Longrightarrow>
   (case phase of
      AllAttempted \<Rightarrow> start_attempts (trace s') = start_attempts (trace s) @ ks
    | CriticalAbort k \<Rightarrow>
        (\<exists>before after cfg. ks = before @ k # after \<and> map_of reg k = Some cfg \<and> critical cfg
           \<and> set started' \<subseteq> set started \<union> set before
           \<and> start_attempts (trace s') = start_attempts (trace s) @ before @ [k])
    | KeyErrorRaised k \<Rightarrow>
        (\<exists>before after. ks = before @ k # after \<and> map_of reg k = None
           \<and> start_attempts (trace s') = start_attempts (trace s) @ before))"
proof (induction ks arbitrary: s started)
  case Nil
  then show ?case by auto
next
  case (Cons x xs)
  show ?case
  proof (cases "map_of reg x")
    case None
    with Cons.prems show ?thesis by fastforce
  next
    case (Some cfg)
    obtain ok s1 where st: "start_service e x s = (ok, s1)"
      by (cases "start_service e x s")
    have att: "start_attempts (trace s1) = start_attempts (trace s) @ [x]"
      using start_service_attempts [of e x s] st by simp
    show ?thesis
    proof (cases "\<not> ok \<and> critical cfg")
      case True
      with Cons.prems Some st
      have "phase = CriticalAbort x" "s' = stop_all_services e s1" "started' = started"
        by auto
      with Some True att show ?thesis
        by (auto simp: stop_all_trace intro!: exI [of _ "[]"])
    next
      case False
      with Cons.prems Some st obtain started1 where
        rec: "start_services reg e xs (s1, started1) = (phase, s', started')" and
        sub: "set started1 \<subseteq> set started \<union> {x}"
        by (cases ok) auto
      show ?thesis
      proof (cases phase)
        case AllAttempted
        with Cons.IH [OF rec] att show ?thesis by simp
      next
        case (CriticalAbort k)
        with Cons.IH [OF rec] obtain before after cfg' where
          "xs = before @ k # after" "map_of reg k = Some cfg'" "critical cfg'"
          "set started' \<subseteq> set started1 \<union> set before"
          "start_attempts (trace s') = start_attempts (trace s1) @ before @ [k]"
          by auto
        with att sub have
          "x # xs = (x # before) @ k # after \<and> map_of reg k = Some cfg' \<and> critical cfg'
           \<and> set started' \<subseteq> set started \<union> set (x # before)
           \<and> start_attempts (trace s') = start_attempts (trace s) @ (x # before) @ [k]"
          by auto
        with CriticalAbort show ?thesis by (simp only: start_phase.case) blast
      next
        case (KeyErrorRaised k)
        with Cons.IH [OF rec] obtain before after where
          "xs = before @ k # after" "map_of reg k = None"
          "start_attempts (trace s') = start_attempts (trace s1) @ before"
          by auto
        with att have
          "x # xs = (x # before) @ k # after \<and> map_of reg k = None
           \<and> start_attempts (trace s') = start_attempts (trace s) @ (x # before)"
          by auto
        with KeyErrorRaised show ?thesis by (simp only: start_phase.case) blast
      qed
    qed
  qed
qed

lemma distinct_start_order: "distinct start_order"
  by (simp add: start_order_def)

lemma takeWhile_upto:
  "k \<notin> set before \<Longrightarrow> takeWhile (\<lambda>x. x \<noteq> k) (before @ k # after) = before"
  by (induction before) auto

lemma run_after_abort:
  "fst (start_services reg e start_order (s, [])) = CriticalAbort k \<Longrightarrow>
   run_integration_tests reg e s
     = (Inr initial_results, fst (snd (start_services reg e start_order (s, []))))"
  by (cases "start_services reg e start_order (s, [])")
     (simp add: run_integration_tests_def)

text \<open>
  Claim C2, as amended. When the start of a critical service fails (the start loop is
  left at that service, which is not among the started services), the services before it
  in the start order and the service itself are the only ones for which a start was
  attempted: no start is attempted for a later service. A failed health check of a
  critical service does not end the run; the health checks are made after all services
  were started.
\<close>

theorem critical_start_failure_ends_starting:
  "fst (start_services reg e start_order (init_runner, [])) = CriticalAbort k \<Longrightarrow>
   (\<exists>cfg. map_of reg k = Some cfg \<and> critical cfg)
   \<and> k \<in> set start_order
   \<and> k \<notin> set (snd (snd (start_services reg e start_order (init_runner, []))))
   \<and> start_attempts (trace (snd (run_integration_tests reg e init_runner)))
       = takeWhile (\<lambda>x. x \<noteq> k) start_order @ [k]"
proof -
  assume abort: "fst (start_services reg e start_order (init_runner, [])) = CriticalAbort k"
  obtain s' started' where
    res: "start_services reg e start_order (init_runner, []) = (CriticalAbort k, s', started')"
    using abort by (cases "start_services reg e start_order (init_runner, [])") auto
  from start_services_attempts [OF res] obtain before after cfg where
    split: "start_order = before @ k # after" and
    cfg: "map_of reg k = Some cfg" "critical cfg" and
    sub: "set started' \<subseteq> set before" and
    att: "start_attempts (trace s') = start_attempts (trace init_runner) @ before @ [k]"
    by auto
  have "k \<notin> set before"
    using distinct_start_order unfolding split by simp
  then have "takeWhile (\<lambda>x. x \<noteq> k) start_order = before"
    unfolding split by (rule takeWhile_upto)
  moreover have "snd (run_integration_tests reg e init_runner) = s'"
    using run_after_abort [OF abort] res by simp
  moreover have "k \<in> set start_order"
    unfolding split by simp
  ultimately show ?thesis
    using cfg att sub res \<open>k \<notin> set before\<close> by (auto simp: init_runner_def)
qed

section \<open>Runs in the example environments\<close>

text \<open>
  The runs are evaluated phase by phase: the start loop, the tests of the started
  services, the communication tests, the final \<^verbatim>\<open>stop_all_services\<close>, the
  success rate.
\<close>

lemma env_signal_at_start_simps:
  "start_reply env_signal_at_start k =
     (if k \<in> set core_services then StaysAlive else ExeMissing)"
  "stop_reply env_signal_at_start k n = Graceful"
  "health_reply env_signal_at_start k = Response 200 ''OK''"
  "perf_reply env_signal_at_start k = PerfResponse 200 (Inl [])"
  "stress_reply env_signal_at_start k i = Response 200 ''OK''"
  "comm_reply env_signal_at_start a b = Response 200 ''OK''"
  "signal_at env_signal_at_start = Some 0"
  by (simp_all add: env_signal_at_start_def env_all_ok_def)

lemma env_signal_at_health_simps:
  "start_reply env_signal_at_health k =
     (if k \<in> set core_services then StaysAlive else ExeMissing)"
  "stop_reply env_signal_at_health k n = Graceful"
  "health_reply env_signal_at_health k = Response 200 ''OK''"
  "perf_reply env_signal_at_health k = PerfResponse 200 (Inl [])"
  "stress_reply env_signal_at_health k i = Response 200 ''OK''"
  "comm_reply env_signal_at_health a b = Response 200 ''OK''"
  "signal_at env_signal_at_health = Some 5"
  by (simp_all add: env_signal_at_health_def env_all_ok_def)

lemma run_stress_test_report:
  "run_stress_test e k =
     StressReport
       \<lparr>total_requests = 50, successful_requests = sum_bools (stress_results e k),
        stress_success_rate = of_nat (sum_bools (stress_results e k)) / of_nat 50 * 100,
        passed = (of_nat (sum_bools (stress_results e k)) / of_nat 50 * (100::rat) \<ge> 95)\<rparr>"
  by (simp add: run_stress_test_def stress_summary_def length_stress_results Let_def)

lemma stress_all_succeed:
  assumes "\<And>i. stress_reply e k i = Response 200 ''OK''"
  shows "run_stress_test e k =
           StressReport \<lparr>total_requests = 50, successful_requests = 50,
                          stress_success_rate = 100, passed = True\<rparr>"
proof -
  have "(\<lambda>i. \<exists>text. stress_reply e k i = Response 200 text) = (\<lambda>i. True)"
    by (simp add: assms)
  then have "sum_bools (stress_results e k) = 50"
    by (simp add: sum_bools_stress_results del: upt.simps)
  then show ?thesis by (simp add: run_stress_test_report)
qed

lemmas stress_eval =
  stress_all_succeed [of env_core, OF env_core_simps(5)]
  stress_all_succeed [of env_signal_at_start, OF env_signal_at_start_simps(5)]
  stress_all_succeed [of env_signal_at_health, OF env_signal_at_health_simps(5)]

lemmas probe_eval =
  test_technology_def test_pair_def check_service_health_def run_performance_test_def
  error_not_in_def get_passed_def count_test_def test_service_communication_def
  initial_results_def str.simps

subsection \<open>Four services built, the health check of neuro-fcc fails\<close>

lemma start_env_core:
  "start_services technologies env_core start_order (init_runner, []) =
     (AllAttempted,
     \<lparr>processes =
        {''vortex-shield'', ''neuro-fcc'', ''self-healing-avionics-bios'',
         ''air-to-air-mesh''},
        running = True,
        trace =
          [StartAttempt ''air-to-air-mesh'', Spawn ''air-to-air-mesh'',
           StartAttempt ''self-healing-avionics-bios'',
           Spawn ''self-healing-avionics-bios'', StartAttempt ''neuro-fcc'',
           Spawn ''neuro-fcc'', StartAttempt ''self-adaptive-rotor-blades'',
           StartAttempt ''vortex-shield'', Spawn ''vortex-shield'',
           StartAttempt ''cold-jet'',
           StartAttempt ''local-gravity-field-navigation'',
           StartAttempt ''predictive-airflow-engine'',
           StartAttempt ''air-swarm-os'', StartAttempt ''star-nav-core''],
        clock = 4, stops = 0\<rparr>,
     [''air-to-air-mesh'', ''self-healing-avionics-bios'', ''neuro-fcc'',
      ''vortex-shield''])"
  by (simp add: runner_eval technologies_def start_order_def env_core_simps core_services_def
        cong: let_weak_cong if_weak_cong prod.case_cong_weak)

lemma tests_env_core:
  "test_technologies env_core
     [''air-to-air-mesh'', ''self-healing-avionics-bios'', ''neuro-fcc'',
     ''vortex-shield'']
     (blocking env_core
        \<lparr>processes =
        {''vortex-shield'', ''neuro-fcc'', ''self-healing-avionics-bios'',
         ''air-to-air-mesh''},
        running = True,
        trace =
          [StartAttempt ''air-to-air-mesh'', Spawn ''air-to-air-mesh'',
           StartAttempt ''self-healing-avionics-bios'',
           Spawn ''self-healing-avionics-bios'', StartAttempt ''neuro-fcc'',
           Spawn ''neuro-fcc'', StartAttempt ''self-adaptive-rotor-blades'',
           StartAttempt ''vortex-shield'', Spawn ''vortex-shield'',
           StartAttempt ''cold-jet'',
           StartAttempt ''local-gravity-field-navigation'',
           StartAttempt ''predictive-airflow-engine'',
           StartAttempt ''air-swarm-os'', StartAttempt ''star-nav-core''],
        clock = 4, stops = 0\<rparr>,
      initial_results) =
     (\<lparr>processes =
        {''vortex-shield'', ''neuro-fcc'', ''self-healing-avionics-bios'',
         ''air-to-air-mesh''},
        running = True,
        trace =
          [StartAttempt ''air-to-air-mesh'', Spawn ''air-to-air-mesh'',
           StartAttempt ''self-healing-avionics-bios'',
           Spawn ''self-healing-avionics-bios'', StartAttempt ''neuro-fcc'',
           Spawn ''neuro-fcc'', StartAttempt ''self-adaptive-rotor-blades'',
           StartAttempt ''vortex-shield'', Spawn ''vortex-shield'',
           StartAttempt ''cold-jet'',
           StartAttempt ''local-gravity-field-navigation'',
           StartAttempt ''predictive-airflow-engine'',
           StartAttempt ''air-swarm-os'', StartAttempt ''star-nav-core'',
           HealthProbe ''air-to-air-mesh'', PerfProbe ''air-to-air-mesh'',
           StressProbe ''air-to-air-mesh'',
           HealthProbe ''self-healing-avionics-bios'',
           PerfProbe ''self-healing-avionics-bios'',
           StressProbe ''self-healing-avionics-bios'',
           HealthProbe ''neuro-fcc'', HealthProbe ''vortex-shield'',
           PerfProbe ''vortex-shield'', StressProbe ''vortex-shield''],
        clock = 19, stops = 0\<rparr>,
     \<lparr>total_tests = 10, passed_tests = 9, failed_tests = 1,
        technologies_tested =
          [(''air-to-air-mesh'',
            \<lparr>health_check = (True, ''OK''),
               performance = Some (PerfData [''measured_response_time'']),
               stress =
                 Some
                  (StressReport
                    \<lparr>total_requests = 50, successful_requests = 50,
                       stress_success_rate = 100, passed = True\<rparr>)\<rparr>),
           (''self-healing-avionics-bios'',
            \<lparr>health_check = (True, ''OK''),
               performance = Some (PerfData [''measured_response_time'']),
               stress =
                 Some
                  (StressReport
                    \<lparr>total_requests = 50, successful_requests = 50,
                       stress_success_rate = 100, passed = True\<rparr>)\<rparr>),
           (''neuro-fcc'',
            \<lparr>health_check = (False, ''HTTP 500''), performance = None,
               stress = None\<rparr>),
           (''vortex-shield'',
            \<lparr>health_check = (True, ''OK''),
               performance = Some (PerfData [''measured_response_time'']),
               stress =
                 Some
                  (StressReport
                    \<lparr>total_requests = 50, successful_requests = 50,
                       stress_success_rate = 100, passed = True\<rparr>)\<rparr>)],
        communication_tests = None, success_rate = None,
        overall_passed = None\<rparr>)"
  by (simp add: runner_eval probe_eval stress_eval env_core_simps
        cong: let_weak_cong if_weak_cong prod.case_cong_weak)

lemma pairs_env_core:
  "test_pairs env_core
     [''air-to-air-mesh'', ''self-healing-avionics-bios'', ''neuro-fcc'',
     ''vortex-shield'']
     communication_pairs
     (\<lparr>processes =
        {''vortex-shield'', ''neuro-fcc'', ''self-healing-avionics-bios'',
         ''air-to-air-mesh''},
        running = True,
        trace =
          [StartAttempt ''air-to-air-mesh'', Spawn ''air-to-air-mesh'',
           StartAttempt ''self-healing-avionics-bios'',
           Spawn ''self-healing-avionics-bios'', StartAttempt ''neuro-fcc'',
           Spawn ''neuro-fcc'', StartAttempt ''self-adaptive-rotor-blades'',
           StartAttempt ''vortex-shield'', Spawn ''vortex-shield'',
           StartAttempt ''cold-jet'',
           StartAttempt ''local-gravity-field-navigation'',
           StartAttempt ''predictive-airflow-engine'',
           StartAttempt ''air-swarm-os'', StartAttempt ''star-nav-core'',
           HealthProbe ''air-to-air-mesh'', PerfProbe ''air-to-air-mesh'',
           StressProbe ''air-to-air-mesh'',
           HealthProbe ''self-healing-avionics-bios'',
           PerfProbe ''self-healing-avionics-bios'',
           StressProbe ''self-healing-avionics-bios'',
           HealthProbe ''neuro-fcc'', HealthProbe ''vortex-shield'',
           PerfProbe ''vortex-shield'', StressProbe ''vortex-shield''],
        clock = 19, stops = 0\<rparr>,
     \<lparr>total_tests = 10, passed_tests = 9, failed_tests = 1,
        technologies_tested =
          [(''air-to-air-mesh'',
            \<lparr>health_check = (True, ''OK''),
               performance = Some (PerfData [''measured_response_time'']),
               stress =
                 Some
                  (StressReport
                    \<lparr>total_requests = 50, successful_requests = 50,
                       stress_success_rate = 100, passed = True\<rparr>)\<rparr>),
           (''self-healing-avionics-bios'',
            \<lparr>health_check = (True, ''OK''),
               performance = Some (PerfData [''measured_response_time'']),
               stress =
                 Some
                  (StressReport
                    \<lparr>total_requests = 50, successful_requests = 50,
                       stress_success_rate = 100, passed = True\<rparr>)\<rparr>),
           (''neuro-fcc'',
            \<lparr>health_check = (False, ''HTTP 500''), performance = None,
               stress = None\<rparr>),
           (''vortex-shield'',
            \<lparr>health_check = (True, ''OK''),
               performance = Some (PerfData [''measured_response_time'']),
               stress =
                 Some
                  (StressReport
                    \<lparr>total_requests = 50, successful_requests = 50,
                       stress_success_rate = 100, passed = True\<rparr>)\<rparr>)],
        communication_tests = None, success_rate = None,
        overall_passed = None\<rparr>) =
     (\<lparr>processes =
        {''vortex-shield'', ''neuro-fcc'', ''self-healing-avionics-bios'',
         ''air-to-air-mesh''},
        running = True,
        trace =
          [StartAttempt ''air-to-air-mesh'', Spawn ''air-to-air-mesh'',
           StartAttempt ''self-healing-avionics-bios'',
           Spawn ''self-healing-avionics-bios'', StartAttempt ''neuro-fcc'',
           Spawn ''neuro-fcc'', StartAttempt ''self-adaptive-rotor-blades'',
           StartAttempt ''vortex-shield'', Spawn ''vortex-shield'',
           StartAttempt ''cold-jet'',
           StartAttempt ''local-gravity-field-navigation'',
           StartAttempt ''predictive-airflow-engine'',
           StartAttempt ''air-swarm-os'', StartAttempt ''star-nav-core'',
           HealthProbe ''air-to-air-mesh'', PerfProbe ''air-to-air-mesh'',
           StressProbe ''air-to-air-mesh'',
           HealthProbe ''self-healing-avionics-bios'',
           PerfProbe ''self-healing-avionics-bios'',
           StressProbe ''self-healing-avionics-bios'',
           HealthProbe ''neuro-fcc'', HealthProbe ''vortex-shield'',
           PerfProbe ''vortex-shield'', StressProbe ''vortex-shield'',
           CommProbe ''neuro-fcc'' ''vortex-shield''],
        clock = 20, stops = 0\<rparr>,
     \<lparr>total_tests = 11, passed_tests = 10, failed_tests = 1,
        technologies_tested =
          [(''air-to-air-mesh'',
            \<lparr>health_check = (True, ''OK''),
               performance = Some (PerfData [''measured_response_time'']),
               stress =
                 Some
                  (StressReport
                    \<lparr>total_requests = 50, successful_requests = 50,
                       stress_success_rate = 100, passed = True\<rparr>)\<rparr>),
           (''self-healing-avionics-bios'',
            \<lparr>health_check = (True, ''OK''),
               performance = Some (PerfData [''measured_response_time'']),
               stress =
                 Some
                  (StressReport
                    \<lparr>total_requests = 50, successful_requests = 50,
                       stress_success_rate = 100, passed = True\<rparr>)\<rparr>),
           (''neuro-fcc'',
            \<lparr>health_check = (False, ''HTTP 500''), performance = None,
               stress = None\<rparr>),
           (''vortex-shield'',
            \<lparr>health_check = (True, ''OK''),
               performance = Some (PerfData [''measured_response_time'']),
               stress =
                 Some
                  (StressReport
                    \<lparr>total_requests = 50, successful_requests = 50,
                       stress_success_rate = 100, passed = True\<rparr>)\<rparr>)],
        communication_tests = Some [(''neuro-fcc_to_vortex-shield'', True)],
        success_rate = None, overall_passed = None\<rparr>)"
  by (simp add: runner_eval probe_eval communication_pairs_def env_core_simps
        cong: let_weak_cong if_weak_cong prod.case_cong_weak)

lemma stop_env_core:
  "stop_all_services env_core
     \<lparr>processes =
     {''vortex-shield'', ''neuro-fcc'', ''self-healing-avionics-bios'',
      ''air-to-air-mesh''},
     running = True,
     trace =
       [StartAttempt ''air-to-air-mesh'', Spawn ''air-to-air-mesh'',
        StartAttempt ''self-healing-avionics-bios'',
        Spawn ''self-healing-avionics-bios'', StartAttempt ''neuro-fcc'',
        Spawn ''neuro-fcc'', StartAttempt ''self-adaptive-rotor-blades'',
        StartAttempt ''vortex-shield'', Spawn ''vortex-shield'',
        StartAttempt ''cold-jet'',
        StartAttempt ''local-gravity-field-navigation'',
        StartAttempt ''predictive-airflow-engine'',
        StartAttempt ''air-swarm-os'', StartAttempt ''star-nav-core'',
        HealthProbe ''air-to-air-mesh'', PerfProbe ''air-to-air-mesh'',
        StressProbe ''air-to-air-mesh'',
        HealthProbe ''self-healing-avionics-bios'',
        PerfProbe ''self-healing-avionics-bios'',
        StressProbe ''self-healing-avionics-bios'',
        HealthProbe ''neuro-fcc'', HealthProbe ''vortex-shield'',
        PerfProbe ''vortex-shield'', StressProbe ''vortex-shield'',
        CommProbe ''neuro-fcc'' ''vortex-shield''],
     clock = 20, stops = 0\<rparr> =
     \<lparr>processes = {}, running = True,
     trace =
       [StartAttempt ''air-to-air-mesh'', Spawn ''air-to-air-mesh'',
        StartAttempt ''self-healing-avionics-bios'',
        Spawn ''self-healing-avionics-bios'', StartAttempt ''neuro-fcc'',
        Spawn ''neuro-fcc'', StartAttempt ''self-adaptive-rotor-blades'',
        StartAttempt ''vortex-shield'', Spawn ''vortex-shield'',
        StartAttempt ''cold-jet'',
        StartAttempt ''local-gravity-field-navigation'',
        StartAttempt ''predictive-airflow-engine'',
        StartAttempt ''air-swarm-os'', StartAttempt ''star-nav-core'',
        HealthProbe ''air-to-air-mesh'', PerfProbe ''air-to-air-mesh'',
        StressProbe ''air-to-air-mesh'',
        HealthProbe ''self-healing-avionics-bios'',
        PerfProbe ''self-healing-avionics-bios'',
        StressProbe ''self-healing-avionics-bios'',
        HealthProbe ''neuro-fcc'', HealthProbe ''vortex-shield'',
        PerfProbe ''vortex-shield'', StressProbe ''vortex-shield'',
        CommProbe ''neuro-fcc'' ''vortex-shield'', Stop ''vortex-shield'',
        Stop ''neuro-fcc'', Stop ''air-to-air-mesh'',
        Stop ''self-healing-avionics-bios''],
     clock = 20, stops = 4\<rparr>"
  by (simp add: runner_eval stop_order_def env_core_simps insert_Diff_if
        cong: let_weak_cong if_weak_cong prod.case_cong_weak)

lemma finalize_env_core:
  "finalize
     \<lparr>total_tests = 11, passed_tests = 10, failed_tests = 1,
     technologies_tested =
       [(''air-to-air-mesh'',
         \<lparr>health_check = (True, ''OK''),
            performance = Some (PerfData [''measured_response_time'']),
            stress =
              Some
               (StressReport
                 \<lparr>total_requests = 50, successful_requests = 50,
                    stress_success_rate = 100, passed = True\<rparr>)\<rparr>),
        (''self-healing-avionics-bios'',
         \<lparr>health_check = (True, ''OK''),
            performance = Some (PerfData [''measured_response_time'']),
            stress =
              Some
               (StressReport
                 \<lparr>total_requests = 50, successful_requests = 50,
                    stress_success_rate = 100, passed = True\<rparr>)\<rparr>),
        (''neuro-fcc'',
         \<lparr>health_check = (False, ''HTTP 500''), performance = None,
            stress = None\<rparr>),
        (''vortex-shield'',
         \<lparr>health_check = (True, ''OK''),
            performance = Some (PerfData [''measured_response_time'']),
            stress =
              Some
               (StressReport
                 \<lparr>total_requests = 50, successful_requests = 50,
                    stress_success_rate = 100, passed = True\<rparr>)\<rparr>)],
     communication_tests = Some [(''neuro-fcc_to_vortex-shield'', True)],
     success_rate = None, overall_passed = None\<rparr> =
     \<lparr>total_tests = 11, passed_tests = 10, failed_tests = 1,
     technologies_tested =
       [(''air-to-air-mesh'',
         \<lparr>health_check = (True, ''OK''),
            performance = Some (PerfData [''measured_response_time'']),
            stress =
              Some
               (StressReport
                 \<lparr>total_requests = 50, successful_requests = 50,
                    stress_success_rate = 100, passed = True\<rparr>)\<rparr>),
        (''self-healing-avionics-bios'',
         \<lparr>health_check = (True, ''OK''),
            performance = Some (PerfData [''measured_response_time'']),
            stress =
              Some
               (StressReport
                 \<lparr>total_requests = 50, successful_requests = 50,
                    stress_success_rate = 100, passed = True\<rparr>)\<rparr>),
        (''neuro-fcc'',
         \<lparr>health_check = (False, ''HTTP 500''), performance = None,
            stress = None\<rparr>),
        (''vortex-shield'',
         \<lparr>health_check = (True, ''OK''),
            performance = Some (PerfData [''measured_response_time'']),
            stress =
              Some
               (StressReport
                 \<lparr>total_requests = 50, successful_requests = 50,
                    stress_success_rate = 100, passed = True\<rparr>)\<rparr>)],
     communication_tests = Some [(''neuro-fcc_to_vortex-shield'', True)],
     success_rate = Some (1000 / 11), overall_passed = Some True\<rparr>"
  by (simp add: finalize_def Let_def)

lemma run_env_core:
  "run_integration_tests technologies env_core init_runner =
     (Inr \<lparr>total_tests = 11, passed_tests = 10, failed_tests = 1,
            technologies_tested =
              [(''air-to-air-mesh'',
                \<lparr>health_check = (True, ''OK''),
                   performance = Some (PerfData [''measured_response_time'']),
                   stress =
                     Some
                      (StressReport
                        \<lparr>total_requests = 50, successful_requests = 50,
                           stress_success_rate = 100, passed = True\<rparr>)\<rparr>),
               (''self-healing-avionics-bios'',
                \<lparr>health_check = (True, ''OK''),
                   performance = Some (PerfData [''measured_response_time'']),
                   stress =
                     Some
                      (StressReport
                        \<lparr>total_requests = 50, successful_requests = 50,
                           stress_success_rate = 100, passed = True\<rparr>)\<rparr>),
               (''neuro-fcc'',
                \<lparr>health_check = (False, ''HTTP 500''), performance = None,
                   stress = None\<rparr>),
               (''vortex-shield'',
                \<lparr>health_check = (True, ''OK''),
                   performance = Some (PerfData [''measured_response_time'']),
                   stress =
                     Some
                      (StressReport
                        \<lparr>total_requests = 50, successful_requests = 50,
                           stress_success_rate = 100, passed = True\<rparr>)\<rparr>)],
            communication_tests =
              Some [(''neuro-fcc_to_vortex-shield'', True)],
            success_rate = Some (1000 / 11), overall_passed = Some True\<rparr>,
     \<lparr>processes = {}, running = True,
        trace =
          [StartAttempt ''air-to-air-mesh'', Spawn ''air-to-air-mesh'',
           StartAttempt ''self-healing-avionics-bios'',
           Spawn ''self-healing-avionics-bios'', StartAttempt ''neuro-fcc'',
           Spawn ''neuro-fcc'', StartAttempt ''self-adaptive-rotor-blades'',
           StartAttempt ''vortex-shield'', Spawn ''vortex-shield'',
           StartAttempt ''cold-jet'',
           StartAttempt ''local-gravity-field-navigation'',
           StartAttempt ''predictive-airflow-engine'',
           StartAttempt ''air-swarm-os'', StartAttempt ''star-nav-core'',
           HealthProbe ''air-to-air-mesh'', PerfProbe ''air-to-air-mesh'',
           StressProbe ''air-to-air-mesh'',
           HealthProbe ''self-healing-avionics-bios'',
           PerfProbe ''self-healing-avionics-bios'',
           StressProbe ''self-healing-avionics-bios'',
           HealthProbe ''neuro-fcc'', HealthProbe ''vortex-shield'',
           PerfProbe ''vortex-shield'', StressProbe ''vortex-shield'',
           CommProbe ''neuro-fcc'' ''vortex-shield'', Stop ''vortex-shield'',
           Stop ''neuro-fcc'', Stop ''air-to-air-mesh'',
           Stop ''self-healing-avionics-bios''],
        clock = 20, stops = 4\<rparr>)"
  by (simp only: run_integration_tests_def start_env_core tests_env_core pairs_env_core
        stop_env_core finalize_env_core Let_def prod.case start_phase.case)

subsection \<open>The signal arrives during the first startup sleep\<close>

lemma start_env_signal_at_start:
  "start_services technologies env_signal_at_start start_order (init_runner, []) =
     (AllAttempted,
     \<lparr>processes =
        {''vortex-shield'', ''neuro-fcc'', ''self-healing-avionics-bios''},
        running = False,
        trace =
          [StartAttempt ''air-to-air-mesh'', Spawn ''air-to-air-mesh'', Signal,
           Stop ''air-to-air-mesh'',
           StartAttempt ''self-healing-avionics-bios'',
           Spawn ''self-healing-avionics-bios'', StartAttempt ''neuro-fcc'',
           Spawn ''neuro-fcc'', StartAttempt ''self-adaptive-rotor-blades'',
           StartAttempt ''vortex-shield'', Spawn ''vortex-shield'',
           StartAttempt ''cold-jet'',
           StartAttempt ''local-gravity-field-navigation'',
           StartAttempt ''predictive-airflow-engine'',
           StartAttempt ''air-swarm-os'', StartAttempt ''star-nav-core''],
        clock = 4, stops = 1\<rparr>,
     [''self-healing-avionics-bios'', ''neuro-fcc'', ''vortex-shield''])"
  by (simp add: runner_eval technologies_def start_order_def stop_order_def
        env_signal_at_start_simps core_services_def insert_Diff_if
        cong: let_weak_cong if_weak_cong prod.case_cong_weak)

lemma tests_env_signal_at_start:
  "test_technologies env_signal_at_start
     [''self-healing-avionics-bios'', ''neuro-fcc'', ''vortex-shield'']
     (blocking env_signal_at_start
        \<lparr>processes =
        {''vortex-shield'', ''neuro-fcc'', ''self-healing-avionics-bios''},
        running = False,
        trace =
          [StartAttempt ''air-to-air-mesh'', Spawn ''air-to-air-mesh'', Signal,
           Stop ''air-to-air-mesh'',
           StartAttempt ''self-healing-avionics-bios'',
           Spawn ''self-healing-avionics-bios'', StartAttempt ''neuro-fcc'',
           Spawn ''neuro-fcc'', StartAttempt ''self-adaptive-rotor-blades'',
           StartAttempt ''vortex-shield'', Spawn ''vortex-shield'',
           StartAttempt ''cold-jet'',
           StartAttempt ''local-gravity-field-navigation'',
           StartAttempt ''predictive-airflow-engine'',
           StartAttempt ''air-swarm-os'', StartAttempt ''star-nav-core''],
        clock = 4, stops = 1\<rparr>,
      initial_results) =
     (\<lparr>processes =
        {''vortex-shield'', ''neuro-fcc'', ''self-healing-avionics-bios''},
        running = False,
        trace =
          [StartAttempt ''air-to-air-mesh'', Spawn ''air-to-air-mesh'', Signal,
           Stop ''air-to-air-mesh'',
           StartAttempt ''self-healing-avionics-bios'',
           Spawn ''self-healing-avionics-bios'', StartAttempt ''neuro-fcc'',
           Spawn ''neuro-fcc'', StartAttempt ''self-adaptive-rotor-blades'',
           StartAttempt ''vortex-shield'', Spawn ''vortex-shield'',
           StartAttempt ''cold-jet'',
           StartAttempt ''local-gravity-field-navigation'',
           StartAttempt ''predictive-airflow-engine'',
           StartAttempt ''air-swarm-os'', StartAttempt ''star-nav-core''],
        clock = 5, stops = 1\<rparr>,
     \<lparr>total_tests = 0, passed_tests = 0, failed_tests = 0,
        technologies_tested = [], communication_tests = None,
        success_rate = None, overall_passed = None\<rparr>)"
  by (simp add: runner_eval probe_eval stress_eval env_signal_at_start_simps
        cong: let_weak_cong if_weak_cong prod.case_cong_weak)

lemma pairs_env_signal_at_start:
  "test_pairs env_signal_at_start
     [''self-healing-avionics-bios'', ''neuro-fcc'', ''vortex-shield'']
     communication_pairs
     (\<lparr>processes =
        {''vortex-shield'', ''neuro-fcc'', ''self-healing-avionics-bios''},
        running = False,
        trace =
          [StartAttempt ''air-to-air-mesh'', Spawn ''air-to-air-mesh'', Signal,
           Stop ''air-to-air-mesh'',
           StartAttempt ''self-healing-avionics-bios'',
           Spawn ''self-healing-avionics-bios'', StartAttempt ''neuro-fcc'',
           Spawn ''neuro-fcc'', StartAttempt ''self-adaptive-rotor-blades'',
           StartAttempt ''vortex-shield'', Spawn ''vortex-shield'',
           StartAttempt ''cold-jet'',
           StartAttempt ''local-gravity-field-navigation'',
           StartAttempt ''predictive-airflow-engine'',
           StartAttempt ''air-swarm-os'', StartAttempt ''star-nav-core''],
        clock = 5, stops = 1\<rparr>,
     \<lparr>total_tests = 0, passed_tests = 0, failed_tests = 0,
        technologies_tested = [], communication_tests = None,
        success_rate = None, overall_passed = None\<rparr>) =
     (\<lparr>processes =
        {''vortex-shield'', ''neuro-fcc'', ''self-healing-avionics-bios''},
        running = False,
        trace =
          [StartAttempt ''air-to-air-mesh'', Spawn ''air-to-air-mesh'', Signal,
           Stop ''air-to-air-mesh'',
           StartAttempt ''self-healing-avionics-bios'',
           Spawn ''self-healing-avionics-bios'', StartAttempt ''neuro-fcc'',
           Spawn ''neuro-fcc'', StartAttempt ''self-adaptive-rotor-blades'',
           StartAttempt ''vortex-shield'', Spawn ''vortex-shield'',
           StartAttempt ''cold-jet'',
           StartAttempt ''local-gravity-field-navigation'',
           StartAttempt ''predictive-airflow-engine'',
           StartAttempt ''air-swarm-os'', StartAttempt ''star-nav-core''],
        clock = 5, stops = 1\<rparr>,
     \<lparr>total_tests = 0, passed_tests = 0, failed_tests = 0,
        technologies_tested = [], communication_tests = None,
        success_rate = None, overall_passed = None\<rparr>)"
  by (simp add: runner_eval probe_eval communication_pairs_def env_signal_at_start_simps
        cong: let_weak_cong if_weak_cong prod.case_cong_weak)

lemma stop_env_signal_at_start:
  "stop_all_services env_signal_at_start
     \<lparr>processes =
     {''vortex-shield'', ''neuro-fcc'', ''self-healing-avionics-bios''},
     running = False,
     trace =
       [StartAttempt ''air-to-air-mesh'', Spawn ''air-to-air-mesh'', Signal,
        Stop ''air-to-air-mesh'',
        StartAttempt ''self-healing-avionics-bios'',
        Spawn ''self-healing-avionics-bios'', StartAttempt ''neuro-fcc'',
        Spawn ''neuro-fcc'', StartAttempt ''self-adaptive-rotor-blades'',
        StartAttempt ''vortex-shield'', Spawn ''vortex-shield'',
        StartAttempt ''cold-jet'',
        StartAttempt ''local-gravity-field-navigation'',
        StartAttempt ''predictive-airflow-engine'',
        StartAttempt ''air-swarm-os'', StartAttempt ''star-nav-core''],
     clock = 5, stops = 1\<rparr> =
     \<lparr>processes = {}, running = False,
     trace =
       [StartAttempt ''air-to-air-mesh'', Spawn ''air-to-air-mesh'', Signal,
        Stop ''air-to-air-mesh'',
        StartAttempt ''self-healing-avionics-bios'',
        Spawn ''self-healing-avionics-bios'', StartAttempt ''neuro-fcc'',
        Spawn ''neuro-fcc'', StartAttempt ''self-adaptive-rotor-blades'',
        StartAttempt ''vortex-shield'', Spawn ''vortex-shield'',
        StartAttempt ''cold-jet'',
        StartAttempt ''local-gravity-field-navigation'',
        StartAttempt ''predictive-airflow-engine'',
        StartAttempt ''air-swarm-os'', StartAttempt ''star-nav-core'',
        Stop ''vortex-shield'', Stop ''neuro-fcc'',
        Stop ''self-healing-avionics-bios''],
     clock = 5, stops = 4\<rparr>"
  by (simp add: runner_eval stop_order_def env_signal_at_start_simps insert_Diff_if
        cong: let_weak_cong if_weak_cong prod.case_cong_weak)

lemma finalize_env_signal_at_start:
  "finalize
     \<lparr>total_tests = 0, passed_tests = 0, failed_tests = 0,
     technologies_tested = [], communication_tests = None,
     success_rate = None, overall_passed = None\<rparr> =
     \<lparr>total_tests = 0, passed_tests = 0, failed_tests = 0,
     technologies_tested = [], communication_tests = None,
     success_rate = Some 0, overall_passed = Some False\<rparr>"
  by (simp add: finalize_def Let_def)

lemma run_env_signal_at_start:
  "run_integration_tests technologies env_signal_at_start init_runner =
     (Inr \<lparr>total_tests = 0, passed_tests = 0, failed_tests = 0,
            technologies_tested = [], communication_tests = None,
            success_rate = Some 0, overall_passed = Some False\<rparr>,
     \<lparr>processes = {}, running = False,
        trace =
          [StartAttempt ''air-to-air-mesh'', Spawn ''air-to-air-mesh'', Signal,
           Stop ''air-to-air-mesh'',
           StartAttempt ''self-healing-avionics-bios'',
           Spawn ''self-healing-avionics-bios'', StartAttempt ''neuro-fcc'',
           Spawn ''neuro-fcc'', StartAttempt ''self-adaptive-rotor-blades'',
           StartAttempt ''vortex-shield'', Spawn ''vortex-shield'',
           StartAttempt ''cold-jet'',
           StartAttempt ''local-gravity-field-navigation'',
           StartAttempt ''predictive-airflow-engine'',
           StartAttempt ''air-swarm-os'', StartAttempt ''star-nav-core'',
           Stop ''vortex-shield'', Stop ''neuro-fcc'',
           Stop ''self-healing-avionics-bios''],
        clock = 5, stops = 4\<rparr>)"
  by (simp only: run_integration_tests_def start_env_signal_at_start
        tests_env_signal_at_start pairs_env_signal_at_start stop_env_signal_at_start
        finalize_env_signal_at_start Let_def prod.case start_phase.case)

subsection \<open>The signal arrives during the first health request\<close>

lemma start_env_signal_at_health:
  "start_services technologies env_signal_at_health start_order (init_runner, []) =
     (AllAttempted,
     \<lparr>processes =
        {''vortex-shield'', ''neuro-fcc'', ''self-healing-avionics-bios'',
         ''air-to-air-mesh''},
        running = True,
        trace =
          [StartAttempt ''air-to-air-mesh'', Spawn ''air-to-air-mesh'',
           StartAttempt ''self-healing-avionics-bios'',
           Spawn ''self-healing-avionics-bios'', StartAttempt ''neuro-fcc'',
           Spawn ''neuro-fcc'', StartAttempt ''self-adaptive-rotor-blades'',
           StartAttempt ''vortex-shield'', Spawn ''vortex-shield'',
           StartAttempt ''cold-jet'',
           StartAttempt ''local-gravity-field-navigation'',
           StartAttempt ''predictive-airflow-engine'',
           StartAttempt ''air-swarm-os'', StartAttempt ''star-nav-core''],
        clock = 4, stops = 0\<rparr>,
     [''air-to-air-mesh'', ''self-healing-avionics-bios'', ''neuro-fcc'',
      ''vortex-shield''])"
  by (simp add: runner_eval technologies_def start_order_def stop_order_def
        env_signal_at_health_simps core_services_def insert_Diff_if
        cong: let_weak_cong if_weak_cong prod.case_cong_weak)

lemma tests_env_signal_at_health:
  "test_technologies env_signal_at_health
     [''air-to-air-mesh'', ''self-healing-avionics-bios'', ''neuro-fcc'',
     ''vortex-shield'']
     (blocking env_signal_at_health
        \<lparr>processes =
        {''vortex-shield'', ''neuro-fcc'', ''self-healing-avionics-bios'',
         ''air-to-air-mesh''},
        running = True,
        trace =
          [StartAttempt ''air-to-air-mesh'', Spawn ''air-to-air-mesh'',
           StartAttempt ''self-healing-avionics-bios'',
           Spawn ''self-healing-avionics-bios'', StartAttempt ''neuro-fcc'',
           Spawn ''neuro-fcc'', StartAttempt ''self-adaptive-rotor-blades'',
           StartAttempt ''vortex-shield'', Spawn ''vortex-shield'',
           StartAttempt ''cold-jet'',
           StartAttempt ''local-gravity-field-navigation'',
           StartAttempt ''predictive-airflow-engine'',
           StartAttempt ''air-swarm-os'', StartAttempt ''star-nav-core''],
        clock = 4, stops = 0\<rparr>,
      initial_results) =
     (\<lparr>processes = {}, running = False,
        trace =
          [StartAttempt ''air-to-air-mesh'', Spawn ''air-to-air-mesh'',
           StartAttempt ''self-healing-avionics-bios'',
           Spawn ''self-healing-avionics-bios'', StartAttempt ''neuro-fcc'',
           Spawn ''neuro-fcc'', StartAttempt ''self-adaptive-rotor-blades'',
           StartAttempt ''vortex-shield'', Spawn ''vortex-shield'',
           StartAttempt ''cold-jet'',
           StartAttempt ''local-gravity-field-navigation'',
           StartAttempt ''predictive-airflow-engine'',
           StartAttempt ''air-swarm-os'', StartAttempt ''star-nav-core'',
           HealthProbe ''air-to-air-mesh'', Signal, Stop ''vortex-shield'',
           Stop ''neuro-fcc'', Stop ''air-to-air-mesh'',
           Stop ''self-healing-avionics-bios'', PerfProbe ''air-to-air-mesh'',
           StressProbe ''air-to-air-mesh''],
        clock = 9, stops = 4\<rparr>,
     \<lparr>total_tests = 3, passed_tests = 3, failed_tests = 0,
        technologies_tested =
          [(''air-to-air-mesh'',
            \<lparr>health_check = (True, ''OK''),
               performance = Some (PerfData [''measured_response_time'']),
               stress =
                 Some
                  (StressReport
                    \<lparr>total_requests = 50, successful_requests = 50,
                       stress_success_rate = 100, passed = True\<rparr>)\<rparr>)],
        communication_tests = None, success_rate = None,
        overall_passed = None\<rparr>)"
  by (simp add: runner_eval probe_eval stress_eval stop_order_def env_signal_at_health_simps
        insert_Diff_if
        cong: let_weak_cong if_weak_cong prod.case_cong_weak)

lemma pairs_env_signal_at_health:
  "test_pairs env_signal_at_health
     [''air-to-air-mesh'', ''self-healing-avionics-bios'', ''neuro-fcc'',
     ''vortex-shield'']
     communication_pairs
     (\<lparr>processes = {}, running = False,
        trace =
          [StartAttempt ''air-to-air-mesh'', Spawn ''air-to-air-mesh'',
           StartAttempt ''self-healing-avionics-bios'',
           Spawn ''self-healing-avionics-bios'', StartAttempt ''neuro-fcc'',
           Spawn ''neuro-fcc'', StartAttempt ''self-adaptive-rotor-blades'',
           StartAttempt ''vortex-shield'', Spawn ''vortex-shield'',
           StartAttempt ''cold-jet'',
           StartAttempt ''local-gravity-field-navigation'',
           StartAttempt ''predictive-airflow-engine'',
           StartAttempt ''air-swarm-os'', StartAttempt ''star-nav-core'',
           HealthProbe ''air-to-air-mesh'', Signal, Stop ''vortex-shield'',
           Stop ''neuro-fcc'', Stop ''air-to-air-mesh'',
           Stop ''self-healing-avionics-bios'', PerfProbe ''air-to-air-mesh'',
           StressProbe ''air-to-air-mesh''],
        clock = 9, stops = 4\<rparr>,
     \<lparr>total_tests = 3, passed_tests = 3, failed_tests = 0,
        technologies_tested =
          [(''air-to-air-mesh'',
            \<lparr>health_check = (True, ''OK''),
               performance = Some (PerfData [''measured_response_time'']),
               stress =
                 Some
                  (StressReport
                    \<lparr>total_requests = 50, successful_requests = 50,
                       stress_success_rate = 100, passed = True\<rparr>)\<rparr>)],
        communication_tests = None, success_rate = None,
        overall_passed = None\<rparr>) =
     (\<lparr>processes = {}, running = False,
        trace =
          [StartAttempt ''air-to-air-mesh'', Spawn ''air-to-air-mesh'',
           StartAttempt ''self-healing-avionics-bios'',
           Spawn ''self-healing-avionics-bios'', StartAttempt ''neuro-fcc'',
           Spawn ''neuro-fcc'', StartAttempt ''self-adaptive-rotor-blades'',
           StartAttempt ''vortex-shield'', Spawn ''vortex-shield'',
           StartAttempt ''cold-jet'',
           StartAttempt ''local-gravity-field-navigation'',
           StartAttempt ''predictive-airflow-engine'',
           StartAttempt ''air-swarm-os'', StartAttempt ''star-nav-core'',
           HealthProbe ''air-to-air-mesh'', Signal, Stop ''vortex-shield'',
           Stop ''neuro-fcc'', Stop ''air-to-air-mesh'',
           Stop ''self-healing-avionics-bios'', PerfProbe ''air-to-air-mesh'',
           StressProbe ''air-to-air-mesh''],
        clock = 9, stops = 4\<rparr>,
     \<lparr>total_tests = 3, passed_tests = 3, failed_tests = 0,
        technologies_tested =
          [(''air-to-air-mesh'',
            \<lparr>health_check = (True, ''OK''),
               performance = Some (PerfData [''measured_response_time'']),
               stress =
                 Some
                  (StressReport
                    \<lparr>total_requests = 50, successful_requests = 50,
                       stress_success_rate = 100, passed = True\<rparr>)\<rparr>)],
        communication_tests = None, success_rate = None,
        overall_passed = None\<rparr>)"
  by (simp add: runner_eval probe_eval communication_pairs_def env_signal_at_health_simps
        cong: let_weak_cong if_weak_cong prod.case_cong_weak)

lemma stop_env_signal_at_health:
  "stop_all_services env_signal_at_health
     \<lparr>processes = {}, running = False,
     trace =
       [StartAttempt ''air-to-air-mesh'', Spawn ''air-to-air-mesh'',
        StartAttempt ''self-healing-avionics-bios'',
        Spawn ''self-healing-avionics-bios'', StartAttempt ''neuro-fcc'',
        Spawn ''neuro-fcc'', StartAttempt ''self-adaptive-rotor-blades'',
        StartAttempt ''vortex-shield'', Spawn ''vortex-shield'',
        StartAttempt ''cold-jet'',
        StartAttempt ''local-gravity-field-navigation'',
        StartAttempt ''predictive-airflow-engine'',
        StartAttempt ''air-swarm-os'', StartAttempt ''star-nav-core'',
        HealthProbe ''air-to-air-mesh'', Signal, Stop ''vortex-shield'',
        Stop ''neuro-fcc'', Stop ''air-to-air-mesh'',
        Stop ''self-healing-avionics-bios'', PerfProbe ''air-to-air-mesh'',
        StressProbe ''air-to-air-mesh''],
     clock = 9, stops = 4\<rparr> =
     \<lparr>processes = {}, running = False,
     trace =
       [StartAttempt ''air-to-air-mesh'', Spawn ''air-to-air-mesh'',
        StartAttempt ''self-healing-avionics-bios'',
        Spawn ''self-healing-avionics-bios'', StartAttempt ''neuro-fcc'',
        Spawn ''neuro-fcc'', StartAttempt ''self-adaptive-rotor-blades'',
        StartAttempt ''vortex-shield'', Spawn ''vortex-shield'',
        StartAttempt ''cold-jet'',
        StartAttempt ''local-gravity-field-navigation'',
        StartAttempt ''predictive-airflow-engine'',
        StartAttempt ''air-swarm-os'', StartAttempt ''star-nav-core'',
        HealthProbe ''air-to-air-mesh'', Signal, Stop ''vortex-shield'',
        Stop ''neuro-fcc'', Stop ''air-to-air-mesh'',
        Stop ''self-healing-avionics-bios'', PerfProbe ''air-to-air-mesh'',
        StressProbe ''air-to-air-mesh''],
     clock = 9, stops = 4\<rparr>"
  by (simp add: runner_eval stop_order_def env_signal_at_health_simps insert_Diff_if
        cong: let_weak_cong if_weak_cong prod.case_cong_weak)

lemma finalize_env_signal_at_health:
  "finalize
     \<lparr>total_tests = 3, passed_tests = 3, failed_tests = 0,
     technologies_tested =
       [(''air-to-air-mesh'',
         \<lparr>health_check = (True, ''OK''),
            performance = Some (PerfData [''measured_response_time'']),
            stress =
              Some
               (StressReport
                 \<lparr>total_requests = 50, successful_requests = 50,
                    stress_success_rate = 100, passed = True\<rparr>)\<rparr>)],
     communication_tests = None, success_rate = None, overall_passed = None\<rparr> =
     \<lparr>total_tests = 3, passed_tests = 3, failed_tests = 0,
     technologies_tested =
       [(''air-to-air-mesh'',
         \<lparr>health_check = (True, ''OK''),
            performance = Some (PerfData [''measured_response_time'']),
            stress =
              Some
               (StressReport
                 \<lparr>total_requests = 50, successful_requests = 50,
                    stress_success_rate = 100, passed = True\<rparr>)\<rparr>)],
     communication_tests = None, success_rate = Some 100,
     overall_passed = Some True\<rparr>"
  by (simp add: finalize_def Let_def)

lemma run_env_signal_at_health:
  "run_integration_tests technologies env_signal_at_health init_runner =
     (Inr \<lparr>total_tests = 3, passed_tests = 3, failed_tests = 0,
            technologies_tested =
              [(''air-to-air-mesh'',
                \<lparr>health_check = (True, ''OK''),
                   performance = Some (PerfData [''measured_response_time'']),
                   stress =
                     Some
                      (StressReport
                        \<lparr>total_requests = 50, successful_requests = 50,
                           stress_success_rate = 100, passed = True\<rparr>)\<rparr>)],
            communication_tests = None, success_rate = Some 100,
            overall_passed = Some True\<rparr>,
     \<lparr>processes = {}, running = False,
        trace =
          [StartAttempt ''air-to-air-mesh'', Spawn ''air-to-air-mesh'',
           StartAttempt ''self-healing-avionics-bios'',
           Spawn ''self-healing-avionics-bios'', StartAttempt ''neuro-fcc'',
           Spawn ''neuro-fcc'', StartAttempt ''self-adaptive-rotor-blades'',
           StartAttempt ''vortex-shield'', Spawn ''vortex-shield'',
           StartAttempt ''cold-jet'',
           StartAttempt ''local-gravity-field-navigation'',
           StartAttempt ''predictive-airflow-engine'',
           StartAttempt ''air-swarm-os'', StartAttempt ''star-nav-core'',
           HealthProbe ''air-to-air-mesh'', Signal, Stop ''vortex-shield'',
           Stop ''neuro-fcc'', Stop ''air-to-air-mesh'',
           Stop ''self-healing-avionics-bios'', PerfProbe ''air-to-air-mesh'',
           StressProbe ''air-to-air-mesh''],
        clock = 9, stops = 4\<rparr>)"
  by (simp only: run_integration_tests_def start_env_signal_at_health
        tests_env_signal_at_health pairs_env_signal_at_health stop_env_signal_at_health
        finalize_env_signal_at_health Let_def prod.case start_phase.case)

subsection \<open>No executable built\<close>

lemma start_env_nothing_built:
  "start_services technologies env_nothing_built start_order (init_runner, []) =
     (CriticalAbort ''self-healing-avionics-bios'',
     \<lparr>processes = {}, running = True,
        trace =
          [StartAttempt ''air-to-air-mesh'',
           StartAttempt ''self-healing-avionics-bios''],
        clock = 0, stops = 0\<rparr>,
     [])"
  by (simp add: runner_eval technologies_def start_order_def stop_order_def
        env_nothing_built_simps
        cong: let_weak_cong if_weak_cong prod.case_cong_weak)

lemma run_env_nothing_built:
  "run_integration_tests technologies env_nothing_built init_runner =
     (Inr initial_results,
      \<lparr>processes = {}, running = True,
      trace =
        [StartAttempt ''air-to-air-mesh'',
         StartAttempt ''self-healing-avionics-bios''],
      clock = 0, stops = 0\<rparr>)"
  by (simp only: run_integration_tests_def start_env_nothing_built prod.case
        start_phase.case)

end
